theory Spec2Isabelle
  imports Complex_Main
begin

section \<open>Data model\<close>

text \<open>
  The notebooks hold one reactive callback, \<open>execute\<close>, in two variants:
  \<^item> \<open>final-soccerbot.ipynb\<close>: a 3-class collision classifier, the globals \<open>detstatus\<close> and
    \<open>lookcount\<close>, target labels 37, 53 and 55 (constants below carry the suffix \<open>_final\<close>);
  \<^item> the earlier notebook: a 7-class classifier, no mutated global, target label 37 (constants
    below carry the suffix \<open>7\<close> where a name would clash).
  The third notebook, \<open>test_detection.ipynb\<close>, repeats the 7-class chain with another detector
  and is not modelled.

  Python floats are modelled as \<open>real\<close>: rounding, infinities and NaN are outside the model.
\<close>

type_synonym bbox = "real \<times> real \<times> real \<times> real"

text \<open>A detection is the dict \<open>{'label': .., 'confidence': .., 'bbox': [x1, y1, x2, y2]}\<close>.\<close>

record detection =
  label :: int
  confidence :: real
  bbox :: bbox

text \<open>The calls on \<open>robot\<close>: \<open>forward(speed)\<close>, \<open>left(speed)\<close>, \<open>stop()\<close>, \<open>set_motors(l, r)\<close>.\<close>

datatype command = Forward real | Left real | Stop | SetMotors real real

text \<open>
  The effects of one invocation, in program order: motor commands, \<open>time.sleep(t)\<close>,
  \<open>camera.unobserve_all()\<close>, \<open>camera.observe(execute, names='value')\<close> and the call of the
  object detector \<open>model(image)\<close>. Prints and widget updates are left out.
\<close>

datatype event = Motor command | Sleep real | Unobserve | Observe | Detect

text \<open>The globals mutated by \<open>execute\<close> in \<open>final-soccerbot.ipynb\<close>.\<close>

record policy_state =
  detstatus :: int
  lookcount :: int

text \<open>The module-level initialisation \<open>detstatus = 0\<close>, \<open>lookcount = 0\<close>.\<close>

definition initial_state :: policy_state where
  "initial_state = \<lparr>detstatus = 0, lookcount = 0\<rparr>"

text \<open>The softmax output \<open>y\<close> of the 3-class classifier: \<open>y[0]\<close>, \<open>y[1]\<close>, \<open>y[2]\<close>.\<close>

record probs3 =
  prob_blocked :: real
  prob_free :: real
  prob_hit :: real

text \<open>The softmax output \<open>y\<close> of the 7-class classifier, \<open>y[0]\<close> to \<open>y[6]\<close> in index order.\<close>

record probs7 =
  prob_blocked7 :: real
  prob_blue7 :: real
  prob_free7 :: real
  prob_green7 :: real
  prob_hit7 :: real
  prob_red7 :: real
  prob_yellow7 :: real

section \<open>Target selection\<close>

text \<open>\<open>detection_center\<close> of the 7-class notebook: the subtracted constant is \<open>0.5\<close>.\<close>

definition detection_center :: "detection \<Rightarrow> real \<times> real" where
  "detection_center det =
     (case bbox det of (b0, b1, b2, b3) \<Rightarrow>
        ((b0 + b2) / 2.0 - 0.5, (b1 + b3) / 2.0 - 0.5))"

text \<open>\<open>detection_center\<close> of \<open>final-soccerbot.ipynb\<close>: the subtracted constant is \<open>0.1\<close>.\<close>

definition detection_center_final :: "detection \<Rightarrow> real \<times> real" where
  "detection_center_final det =
     (case bbox det of (b0, b1, b2, b3) \<Rightarrow>
        ((b0 + b2) / 2.0 - 0.1, (b1 + b3) / 2.0 - 0.1))"

text \<open>\<open>norm(vec)\<close>: \<open>np.sqrt(vec[0]**2 + vec[1]**2)\<close>.\<close>

definition norm_vec :: "real \<times> real \<Rightarrow> real" where
  "norm_vec vec = sqrt ((fst vec)\<^sup>2 + (snd vec)\<^sup>2)"

text \<open>
  The loop of \<open>closest_detection\<close>, whose text is the same in both notebooks; \<open>ctr\<close> is the
  \<open>detection_center\<close> in scope and the accumulator is the local \<open>closest_detection\<close>.
\<close>

fun closest_loop ::
  "(detection \<Rightarrow> real \<times> real) \<Rightarrow> detection option \<Rightarrow> detection list \<Rightarrow> detection option" where
  "closest_loop ctr acc [] = acc"
| "closest_loop ctr acc (det # dets) =
     (case acc of
        None \<Rightarrow> closest_loop ctr (Some det) dets
      | Some c \<Rightarrow>
          if norm_vec (ctr det) < norm_vec (ctr c)
          then closest_loop ctr (Some det) dets
          else closest_loop ctr acc dets)"

definition closest_detection :: "detection list \<Rightarrow> detection option" where
  "closest_detection detections = closest_loop detection_center None detections"

definition closest_detection_final :: "detection list \<Rightarrow> detection option" where
  "closest_detection_final detections = closest_loop detection_center_final None detections"

section \<open>The callback of \<open>final-soccerbot.ipynb\<close>\<close>

text \<open>The escape maneuver of the \<open>prob_hit\<close> branch, the same in both notebooks.\<close>

definition escape_maneuver :: "event list" where
  "escape_maneuver =
     [Unobserve, Sleep 1.0, Motor Stop, Sleep 0.5, Motor (Forward 0.4), Sleep 0.5,
      Motor Stop, Sleep 2, Observe]"

text \<open>
  The \<open>if\<close>/\<open>elif\<close> chain on the collision probabilities. The result is the new state, the
  events of the branch and whether the branch ends in \<open>return\<close>.
\<close>

definition collision_branch_final :: "policy_state \<Rightarrow> probs3 \<Rightarrow> policy_state \<times> event list \<times> bool" where
  "collision_branch_final s y =
     (if prob_free y > 0.4 \<and> detstatus s = 0 then
        (if lookcount s < 10
         then (s\<lparr>lookcount := lookcount s + 1\<rparr>, [Motor (Left 0.1)], False)
         else (s\<lparr>lookcount := 0\<rparr>, [Motor (Forward 0.2)], False))
      else if prob_free y > 0.4 \<and> detstatus s = 1 then (s, [Motor (Forward 0.2)], True)
      else if prob_blocked y > 0.5 then (s, [Motor (Left 0.2)], False)
      else if prob_hit y > 0.5 then (s, escape_maneuver, True)
      else (s, [], False))"

text \<open>The list comprehension selecting the target labels.\<close>

definition matching_detections_final :: "detection list \<Rightarrow> detection list" where
  "matching_detections_final ds =
     filter (\<lambda>d. label d = 37 \<or> label d = 53 \<or> label d = 55) ds"

text \<open>
  The rest of \<open>execute\<close> after \<open>detections = model(image)\<close>; \<open>ds\<close> is \<open>detections[0]\<close>.
\<close>

definition steer_final :: "policy_state \<Rightarrow> detection list \<Rightarrow> policy_state \<times> event list" where
  "steer_final s ds =
     (case closest_detection_final (matching_detections_final ds) of
        None \<Rightarrow> (s\<lparr>detstatus := 0\<rparr>, [Motor (Forward 0.2)])
      | Some det \<Rightarrow>
          (let center = detection_center_final det;
               turn_g = 0.2;
               speed_g = 0.5
           in (s\<lparr>detstatus := 1\<rparr>,
               [Motor (SetMotors (speed_g + turn_g * fst center) (speed_g - turn_g * fst center)),
                Sleep 1, Motor Stop, Unobserve, Sleep 2, Observe])))"

definition execute_final ::
  "policy_state \<Rightarrow> probs3 \<Rightarrow> detection list \<Rightarrow> policy_state \<times> event list" where
  "execute_final s y ds =
     (case collision_branch_final s y of
        (s1, t1, returned) \<Rightarrow>
          if returned then (s1, t1)
          else (case steer_final s1 ds of (s2, t2) \<Rightarrow> (s2, t1 @ Detect # t2)))"

text \<open>The states the globals can take: the initial one and those left by a frame.\<close>

inductive reachable_final :: "policy_state \<Rightarrow> bool" where
  init: "reachable_final initial_state"
| frame: "reachable_final s \<Longrightarrow> reachable_final (fst (execute_final s y ds))"

section \<open>The callback of the 7-class notebook\<close>

definition collision_branch7 :: "probs7 \<Rightarrow> event list \<times> bool" where
  "collision_branch7 y =
     (if prob_free7 y > 0.4 then ([Motor (Forward 0.2)], False)
      else if prob_red7 y > 0.5 \<or> prob_yellow7 y > 0.5 \<or> prob_green7 y > 0.5 \<or> prob_blue7 y > 0.5
        then ([Motor (Left 0.1)], True)
      else if prob_blocked7 y > 0.6 then ([Motor (Left 0.2)], True)
      else if prob_hit7 y > 0.5 then (escape_maneuver, True)
      else ([], False))"

definition matching_detections7 :: "detection list \<Rightarrow> detection list" where
  "matching_detections7 ds = filter (\<lambda>d. label d = 37) ds"

text \<open>\<open>speed_widget_value\<close> is \<open>speed_widget.value\<close>, a slider with \<open>min=0.0\<close>, \<open>max=1.0\<close>.\<close>

definition steer7 :: "real \<Rightarrow> detection list \<Rightarrow> event list" where
  "steer7 speed_widget_value ds =
     (case closest_detection (matching_detections7 ds) of
        None \<Rightarrow> [Motor (Forward 0.2)]
      | Some det \<Rightarrow>
          (let center = detection_center det;
               turn_g = 0.30;
               speed_g = speed_widget_value
           in [Unobserve, Sleep 0.5,
               Motor (SetMotors (speed_g + turn_g * fst center) (speed_g - turn_g * fst center)),
               Motor Stop, Sleep 2, Observe]))"

definition execute7 :: "real \<Rightarrow> probs7 \<Rightarrow> detection list \<Rightarrow> event list" where
  "execute7 speed_widget_value y ds =
     (case collision_branch7 y of
        (t1, returned) \<Rightarrow>
          if returned then t1 else t1 @ Detect # steer7 speed_widget_value ds)"

section \<open>Observations on a trace\<close>

text \<open>The motor commands of a trace, in order.\<close>

fun motor_commands :: "event list \<Rightarrow> command list" where
  "motor_commands [] = []"
| "motor_commands (Motor c # t) = c # motor_commands t"
| "motor_commands (e # t) = motor_commands t"

text \<open>The wheel speeds passed to \<open>set_motors\<close> in a trace, in order.\<close>

fun set_motors_args :: "event list \<Rightarrow> (real \<times> real) list" where
  "set_motors_args [] = []"
| "set_motors_args (Motor (SetMotors l r) # t) = (l, r) # set_motors_args t"
| "set_motors_args (e # t) = set_motors_args t"

text \<open>A bounding box in normalised coordinates: all four components in \<open>[0, 1]\<close>.\<close>

definition bbox_in_unit :: "detection \<Rightarrow> bool" where
  "bbox_in_unit d =
     (case bbox d of (b0, b1, b2, b3) \<Rightarrow>
        0 \<le> b0 \<and> b0 \<le> 1 \<and> 0 \<le> b1 \<and> b1 \<le> 1 \<and> 0 \<le> b2 \<and> b2 \<le> 1 \<and> 0 \<le> b3 \<and> b3 \<le> 1)"

section \<open>The frame source\<close>

text \<open>
  Modelled from the spec: the frame source, that is the camera's subscription mechanism, which
  belongs to a library outside the notebooks. Sections 5 and 6 of the specification give its
  contract: the callback runs once per delivered frame, \<open>detach()\<close> (here
  \<open>camera.unobserve_all()\<close>) suspends frame delivery and \<open>attach(callback)\<close> (here
  \<open>camera.observe(execute, names='value')\<close>) resumes it.

  A schedule interleaves the effects of the running invocation with the arrival of new
  frames.
\<close>

datatype tick = Effect event | FrameArrives

text \<open>The effects of the running invocation in a schedule, in order.\<close>

fun effects_of :: "tick list \<Rightarrow> event list" where
  "effects_of [] = []"
| "effects_of (Effect e # ts) = e # effects_of ts"
| "effects_of (FrameArrives # ts) = effects_of ts"

text \<open>
  Modelled from the spec: the number of frames of a schedule that are delivered, each of which
  would enter \<open>execute\<close> again while the running invocation has not returned. A frame is
  delivered when it arrives while the callback is attached.
\<close>

fun delivered :: "bool \<Rightarrow> tick list \<Rightarrow> nat" where
  "delivered attached [] = 0"
| "delivered attached (FrameArrives # ts) = (if attached then 1 else 0) + delivered attached ts"
| "delivered attached (Effect Unobserve # ts) = delivered False ts"
| "delivered attached (Effect Observe # ts) = delivered True ts"
| "delivered attached (Effect e # ts) = delivered attached ts"

section \<open>Concrete frames\<close>

text \<open>Detections, probability vectors and a schedule used to evaluate the callbacks.\<close>

definition ball_centre :: detection where
  "ball_centre = \<lparr>label = 37, confidence = 0.9, bbox = (0.4, 0.4, 0.6, 0.6)\<rparr>"

definition ball_right :: detection where
  "ball_right = \<lparr>label = 37, confidence = 0.9, bbox = (0.9, 0, 1, 1)\<rparr>"

definition clear7 :: probs7 where
  "clear7 = \<lparr>prob_blocked7 = 0.3, prob_blue7 = 0.1, prob_free7 = 0.2, prob_green7 = 0.1,
             prob_hit7 = 0.1, prob_red7 = 0.1, prob_yellow7 = 0.1\<rparr>"

definition clear3 :: probs3 where
  "clear3 = \<lparr>prob_blocked = 0.3, prob_free = 0.3, prob_hit = 0.4\<rparr>"

text \<open>A schedule of the escape maneuver with a frame arriving around every effect.\<close>

definition busy_schedule :: "tick list" where
  "busy_schedule =
     [FrameArrives, Effect (Sleep 1), FrameArrives, Effect (Motor Stop), FrameArrives,
      Effect (Sleep 0.5), FrameArrives, Effect (Motor (Forward 0.4)), FrameArrives,
      Effect (Sleep 0.5), FrameArrives, Effect (Motor Stop), FrameArrives, Effect (Sleep 2),
      FrameArrives]"

definition ball_far :: detection where
  "ball_far = \<lparr>label = 37, confidence = 0.9, bbox = (0.1, 0.1, 0.3, 0.3)\<rparr>"

definition ball_near :: detection where
  "ball_near = \<lparr>label = 37, confidence = 0.9, bbox = (0.45, 0.45, 0.55, 0.55)\<rparr>"

definition ball_west :: detection where
  "ball_west = \<lparr>label = 37, confidence = 0.9, bbox = (0.2, 0.4, 0.6, 0.6)\<rparr>"

definition ball_east :: detection where
  "ball_east = \<lparr>label = 37, confidence = 0.9, bbox = (0.4, 0.4, 0.8, 0.6)\<rparr>"

section \<open>Target selection: results\<close>

lemma detection_center_midpoint:
  "detection_center \<lparr>label = l, confidence = c, bbox = (x1, y1, x2, y2)\<rparr>
     = ((x1 + x2) / 2 - 0.5, (y1 + y2) / 2 - 0.5)"
  by (simp add: detection_center_def)

text \<open>
  C2: in the 7-class notebook \<open>detection_center\<close> is the bounding-box midpoint minus
  \<open>0.5\<close> (lemma \<open>detection_center_midpoint\<close>). In \<open>final-soccerbot.ipynb\<close> the subtracted
  constant is \<open>0.1\<close>: the box covering the whole image, whose midpoint is the image centre,
  gets the offset \<open>(0.4, 0.4)\<close> and not \<open>(0, 0)\<close>.
\<close>

theorem detection_center_final_unit_box:
  "detection_center_final \<lparr>label = 37, confidence = 1, bbox = (0, 0, 1, 1)\<rparr> = (2 / 5, 2 / 5)
   \<and> detection_center_final \<lparr>label = 37, confidence = 1, bbox = (0, 0, 1, 1)\<rparr>
       \<noteq> ((0 + 1) / 2 - 0.5, (0 + 1) / 2 - 0.5)"
  by (simp add: detection_center_final_def)

text \<open>
  C9: \<open>closest_detection\<close> applied to the empty list returns \<open>None\<close>, in both notebooks; the
  loop body is never entered, so nothing can raise.
\<close>

theorem closest_detection_empty:
  "closest_detection [] = None \<and> closest_detection_final [] = None"
  by (simp add: closest_detection_def closest_detection_final_def)

lemma closest_loop_None_Cons:
  "closest_loop ctr None (d # ds) = closest_loop ctr (Some d) ds"
  by simp

lemma closest_loop_Some_defined:
  "\<exists>r. closest_loop ctr (Some c) ds = Some r"
  by (induction ds arbitrary: c) auto

lemma closest_loop_Some_first_min:
  "closest_loop ctr (Some c) ds = Some r \<Longrightarrow>
     (r = c \<and> (\<forall>d \<in> set ds. norm_vec (ctr c) \<le> norm_vec (ctr d)))
   \<or> (\<exists>i<length ds. r = ds ! i \<and> norm_vec (ctr r) < norm_vec (ctr c)
          \<and> (\<forall>j<length ds. norm_vec (ctr r) \<le> norm_vec (ctr (ds ! j)))
          \<and> (\<forall>j<i. norm_vec (ctr r) < norm_vec (ctr (ds ! j))))"
proof (induction ds arbitrary: c)
  case Nil
  then show ?case by simp
next
  case (Cons d ds)
  show ?case
  proof (cases "norm_vec (ctr d) < norm_vec (ctr c)")
    case True
    with Cons.prems have run: "closest_loop ctr (Some d) ds = Some r" by simp
    from Cons.IH [OF run] show ?thesis
    proof
      assume keep: "r = d \<and> (\<forall>x \<in> set ds. norm_vec (ctr d) \<le> norm_vec (ctr x))"
      have "0 < length (d # ds) \<and> r = (d # ds) ! 0 \<and> norm_vec (ctr r) < norm_vec (ctr c)
          \<and> (\<forall>j<length (d # ds). norm_vec (ctr r) \<le> norm_vec (ctr ((d # ds) ! j)))
          \<and> (\<forall>j<0. norm_vec (ctr r) < norm_vec (ctr ((d # ds) ! j)))"
        using keep True by (auto simp: nth_Cons split: nat.splits)
      then show ?thesis by blast
    next
      assume "\<exists>i<length ds. r = ds ! i \<and> norm_vec (ctr r) < norm_vec (ctr d)
          \<and> (\<forall>j<length ds. norm_vec (ctr r) \<le> norm_vec (ctr (ds ! j)))
          \<and> (\<forall>j<i. norm_vec (ctr r) < norm_vec (ctr (ds ! j)))"
      then obtain i where i: "i < length ds" "r = ds ! i" "norm_vec (ctr r) < norm_vec (ctr d)"
          "\<forall>j<length ds. norm_vec (ctr r) \<le> norm_vec (ctr (ds ! j))"
          "\<forall>j<i. norm_vec (ctr r) < norm_vec (ctr (ds ! j))" by blast
      have "Suc i < length (d # ds) \<and> r = (d # ds) ! Suc i \<and> norm_vec (ctr r) < norm_vec (ctr c)
          \<and> (\<forall>j<length (d # ds). norm_vec (ctr r) \<le> norm_vec (ctr ((d # ds) ! j)))
          \<and> (\<forall>j<Suc i. norm_vec (ctr r) < norm_vec (ctr ((d # ds) ! j)))"
        using i True by (auto simp: nth_Cons split: nat.splits)
      then show ?thesis by blast
    qed
  next
    case False
    with Cons.prems have run: "closest_loop ctr (Some c) ds = Some r" by simp
    from Cons.IH [OF run] show ?thesis
    proof
      assume "r = c \<and> (\<forall>x \<in> set ds. norm_vec (ctr c) \<le> norm_vec (ctr x))"
      then show ?thesis using False by auto
    next
      assume "\<exists>i<length ds. r = ds ! i \<and> norm_vec (ctr r) < norm_vec (ctr c)
          \<and> (\<forall>j<length ds. norm_vec (ctr r) \<le> norm_vec (ctr (ds ! j)))
          \<and> (\<forall>j<i. norm_vec (ctr r) < norm_vec (ctr (ds ! j)))"
      then obtain i where i: "i < length ds" "r = ds ! i" "norm_vec (ctr r) < norm_vec (ctr c)"
          "\<forall>j<length ds. norm_vec (ctr r) \<le> norm_vec (ctr (ds ! j))"
          "\<forall>j<i. norm_vec (ctr r) < norm_vec (ctr (ds ! j))" by blast
      have "Suc i < length (d # ds) \<and> r = (d # ds) ! Suc i \<and> norm_vec (ctr r) < norm_vec (ctr c)
          \<and> (\<forall>j<length (d # ds). norm_vec (ctr r) \<le> norm_vec (ctr ((d # ds) ! j)))
          \<and> (\<forall>j<Suc i. norm_vec (ctr r) < norm_vec (ctr ((d # ds) ! j)))"
        using i False by (auto simp: nth_Cons split: nat.splits)
      then show ?thesis by blast
    qed
  qed
qed

lemma closest_loop_first_min:
  assumes "ds \<noteq> []"
  shows "\<exists>i<length ds. closest_loop ctr None ds = Some (ds ! i)
          \<and> (\<forall>j<length ds. norm_vec (ctr (ds ! i)) \<le> norm_vec (ctr (ds ! j)))
          \<and> (\<forall>j<i. norm_vec (ctr (ds ! i)) < norm_vec (ctr (ds ! j)))"
proof -
  from assms obtain d0 rest where ds: "ds = d0 # rest" by (cases ds) auto
  obtain r where r: "closest_loop ctr (Some d0) rest = Some r"
    using closest_loop_Some_defined by blast
  from closest_loop_Some_first_min [OF r] show ?thesis
  proof
    assume keep: "r = d0 \<and> (\<forall>d \<in> set rest. norm_vec (ctr d0) \<le> norm_vec (ctr d))"
    have "0 < length ds \<and> closest_loop ctr None ds = Some (ds ! 0)
          \<and> (\<forall>j<length ds. norm_vec (ctr (ds ! 0)) \<le> norm_vec (ctr (ds ! j)))
          \<and> (\<forall>j<0. norm_vec (ctr (ds ! 0)) < norm_vec (ctr (ds ! j)))"
      using keep r ds by (auto simp: nth_Cons split: nat.splits)
    then show ?thesis by blast
  next
    assume "\<exists>i<length rest. r = rest ! i \<and> norm_vec (ctr r) < norm_vec (ctr d0)
          \<and> (\<forall>j<length rest. norm_vec (ctr r) \<le> norm_vec (ctr (rest ! j)))
          \<and> (\<forall>j<i. norm_vec (ctr r) < norm_vec (ctr (rest ! j)))"
    then obtain i where i: "i < length rest" "r = rest ! i" "norm_vec (ctr r) < norm_vec (ctr d0)"
          "\<forall>j<length rest. norm_vec (ctr r) \<le> norm_vec (ctr (rest ! j))"
          "\<forall>j<i. norm_vec (ctr r) < norm_vec (ctr (rest ! j))" by blast
    have "Suc i < length ds \<and> closest_loop ctr None ds = Some (ds ! Suc i)
          \<and> (\<forall>j<length ds. norm_vec (ctr (ds ! Suc i)) \<le> norm_vec (ctr (ds ! j)))
          \<and> (\<forall>j<Suc i. norm_vec (ctr (ds ! Suc i)) < norm_vec (ctr (ds ! j)))"
      using i r ds by (auto simp: nth_Cons split: nat.splits)
    then show ?thesis by blast
  qed
qed

text \<open>
  In the 7-class notebook, on a non-empty list, \<open>closest_detection\<close> returns an element whose
  centre offset (midpoint minus \<open>0.5\<close>) has the least Euclidean norm, and every element
  before it has a strictly larger norm: among equal minima the first in input order wins.
\<close>

lemma closest_detection7_first_minimum:
  assumes "detections \<noteq> []"
  shows "\<exists>i<length detections. closest_detection detections = Some (detections ! i)
          \<and> (\<forall>j<length detections. norm_vec (detection_center (detections ! i))
                \<le> norm_vec (detection_center (detections ! j)))
          \<and> (\<forall>j<i. norm_vec (detection_center (detections ! i))
                < norm_vec (detection_center (detections ! j)))"
  unfolding closest_detection_def
  using closest_loop_first_min [OF assms, of detection_center] by blast

text \<open>
  In \<open>final-soccerbot.ipynb\<close> the same holds only for the norm of the midpoint minus
  \<open>0.1\<close>, which is what its \<open>detection_center\<close> computes.
\<close>

lemma closest_detection_final_first_minimum:
  assumes "detections \<noteq> []"
  shows "\<exists>i<length detections. closest_detection_final detections = Some (detections ! i)
          \<and> (\<forall>j<length detections. norm_vec (detection_center_final (detections ! i))
                \<le> norm_vec (detection_center_final (detections ! j)))
          \<and> (\<forall>j<i. norm_vec (detection_center_final (detections ! i))
                < norm_vec (detection_center_final (detections ! j)))"
  unfolding closest_detection_final_def
  using closest_loop_first_min [OF assms, of detection_center_final] by blast

lemma closest_detection7_tie:
  "norm_vec (detection_center ball_west) = norm_vec (detection_center ball_east)
   \<and> closest_detection [ball_far, ball_west, ball_east] = Some ball_west
   \<and> closest_detection [ball_far, ball_east, ball_west] = Some ball_east"
  by (simp add: closest_detection_def detection_center_def norm_vec_def ball_far_def
      ball_west_def ball_east_def power2_eq_square)

text \<open>
  C4: \<open>closest_detection\<close> should return the element whose centre offset, the bounding-box
  midpoint minus \<open>0.5\<close>, has the least Euclidean norm. In \<open>final-soccerbot.ipynb\<close> it does
  not: on the two detections with boxes \<open>(0.1, 0.1, 0.3, 0.3)\<close> and
  \<open>(0.45, 0.45, 0.55, 0.55)\<close> it returns the first, although the second lies at the image
  centre and has the smaller centre-offset norm. The 7-class notebook returns the second.
\<close>

theorem closest_detection_final_spec_scenario:
  "closest_detection_final [ball_far, ball_near] = Some ball_far
   \<and> norm_vec (detection_center ball_near) < norm_vec (detection_center ball_far)
   \<and> closest_detection [ball_far, ball_near] = Some ball_near"
  by (simp add: closest_detection_final_def closest_detection_def detection_center_final_def
      detection_center_def norm_vec_def ball_far_def ball_near_def power2_eq_square)

lemma closest_loop_mem:
  "closest_loop ctr acc ds = Some r \<Longrightarrow> r \<in> set ds \<or> acc = Some r"
proof (induction ds arbitrary: acc)
  case Nil
  then show ?case by simp
next
  case (Cons d ds)
  show ?case
  proof (cases acc)
    case None
    with Cons.prems have "closest_loop ctr (Some d) ds = Some r" by simp
    from Cons.IH [OF this] show ?thesis by auto
  next
    case (Some c)
    show ?thesis
    proof (cases "norm_vec (ctr d) < norm_vec (ctr c)")
      case True
      with Some Cons.prems have "closest_loop ctr (Some d) ds = Some r" by simp
      from Cons.IH [OF this] show ?thesis by auto
    next
      case False
      with Some Cons.prems have "closest_loop ctr acc ds = Some r" by simp
      from Cons.IH [OF this] show ?thesis by auto
    qed
  qed
qed

lemma closest_detection_final_mem:
  "closest_detection_final (matching_detections_final ds) = Some det \<Longrightarrow> det \<in> set ds"
  using closest_loop_mem [of detection_center_final None "matching_detections_final ds" det]
  by (auto simp: closest_detection_final_def matching_detections_final_def)

lemma closest_detection7_mem:
  "closest_detection (matching_detections7 ds) = Some det \<Longrightarrow> det \<in> set ds"
  using closest_loop_mem [of detection_center None "matching_detections7 ds" det]
  by (auto simp: closest_detection_def matching_detections7_def)

section \<open>The callbacks: results\<close>

lemma motor_commands_append:
  "motor_commands (t @ u) = motor_commands t @ motor_commands u"
  by (induction t rule: motor_commands.induct) simp_all

lemma set_motors_args_append:
  "set_motors_args (t @ u) = set_motors_args t @ set_motors_args u"
  by (induction t rule: set_motors_args.induct) simp_all

lemma motor_commands_escape:
  "motor_commands escape_maneuver = [Stop, Forward 0.4, Stop]"
  by (simp add: escape_maneuver_def)

lemma set_motors_args_escape: "set_motors_args escape_maneuver = []"
  by (simp add: escape_maneuver_def)

lemma motor_commands_steer_final:
  "motor_commands (snd (steer_final s ds)) =
     (case closest_detection_final (matching_detections_final ds) of
        None \<Rightarrow> [Forward 0.2]
      | Some det \<Rightarrow> [SetMotors (0.5 + 0.2 * fst (detection_center_final det))
                               (0.5 - 0.2 * fst (detection_center_final det)), Stop])"
  by (simp add: steer_final_def Let_def split: option.splits)

lemma motor_commands_steer7:
  "motor_commands (steer7 v ds) =
     (case closest_detection (matching_detections7 ds) of
        None \<Rightarrow> [Forward 0.2]
      | Some det \<Rightarrow> [SetMotors (v + 0.3 * fst (detection_center det))
                               (v - 0.3 * fst (detection_center det)), Stop])"
  by (simp add: steer7_def Let_def split: option.splits)

lemma steer_final_lookcount: "lookcount (fst (steer_final s ds)) = lookcount s"
  by (simp add: steer_final_def Let_def split: option.splits)

lemma steer_final_detstatus:
  "detstatus (fst (steer_final s ds)) = 0 \<or> detstatus (fst (steer_final s ds)) = 1"
  by (simp add: steer_final_def Let_def split: option.splits)

lemma execute_final_proj:
  "execute_final s y ds =
     (if snd (snd (collision_branch_final s y))
      then (fst (collision_branch_final s y), fst (snd (collision_branch_final s y)))
      else (fst (steer_final (fst (collision_branch_final s y)) ds),
            fst (snd (collision_branch_final s y)) @ Detect #
              snd (steer_final (fst (collision_branch_final s y)) ds)))"
  by (simp add: execute_final_def split: prod.splits)

lemma execute7_proj:
  "execute7 v y ds =
     (if snd (collision_branch7 y) then fst (collision_branch7 y)
      else fst (collision_branch7 y) @ Detect # steer7 v ds)"
  by (simp add: execute7_def split: prod.splits)

lemma execute_final_detstatus:
  assumes "detstatus s = 0 \<or> detstatus s = 1"
  shows "detstatus (fst (execute_final s y ds)) = 0 \<or> detstatus (fst (execute_final s y ds)) = 1"
proof (cases "snd (snd (collision_branch_final s y))")
  case True
  then have "fst (execute_final s y ds) = s"
    by (auto simp: execute_final_proj collision_branch_final_def split: if_splits)
  with assms show ?thesis by simp
next
  case False
  then have "fst (execute_final s y ds) = fst (steer_final (fst (collision_branch_final s y)) ds)"
    by (simp add: execute_final_proj)
  then show ?thesis using steer_final_detstatus by simp
qed

lemma reachable_final_detstatus:
  "reachable_final s \<Longrightarrow> detstatus s = 0 \<or> detstatus s = 1"
proof (induction rule: reachable_final.induct)
  case init
  show ?case by (simp add: initial_state_def)
next
  case (frame s y ds)
  from frame.IH show ?case by (rule execute_final_detstatus)
qed

lemma steer_final_count:
  "Suc 0 \<le> length (motor_commands (snd (steer_final s ds)))"
  "length (motor_commands (snd (steer_final s ds))) \<le> 2"
  "length (motor_commands (snd (steer_final s ds))) \<le> 3"
  by (simp_all add: motor_commands_steer_final split: option.splits)

lemma steer7_count:
  "Suc 0 \<le> length (motor_commands (steer7 v ds))"
  "length (motor_commands (steer7 v ds)) \<le> 2"
  "length (motor_commands (steer7 v ds)) \<le> 3"
  by (simp_all add: motor_commands_steer7 split: option.splits)

text \<open>
  C1 (as amended): every invocation issues at least one and at most three motor commands, in
  both notebooks; exactly one is issued in the branches that return at once with a single
  command (free space with a tracked target in \<open>final-soccerbot.ipynb\<close>; a colour obstacle or
  a blocked path, below the free-space threshold, in the 7-class notebook).
\<close>

theorem motor_commands_per_frame:
  "1 \<le> length (motor_commands (snd (execute_final s y ds)))
   \<and> length (motor_commands (snd (execute_final s y ds))) \<le> 3
   \<and> 1 \<le> length (motor_commands (execute7 v y7 ds))
   \<and> length (motor_commands (execute7 v y7 ds)) \<le> 3
   \<and> (prob_free y > 0.4 \<and> detstatus s = 1 \<longrightarrow>
        length (motor_commands (snd (execute_final s y ds))) = 1)
   \<and> (\<not> prob_free7 y7 > 0.4 \<and>
        (prob_red7 y7 > 0.5 \<or> prob_yellow7 y7 > 0.5 \<or> prob_green7 y7 > 0.5
          \<or> prob_blue7 y7 > 0.5 \<or> prob_blocked7 y7 > 0.6) \<longrightarrow>
        length (motor_commands (execute7 v y7 ds)) = 1)"
proof -
  have f: "1 \<le> length (motor_commands (snd (execute_final s y ds)))
      \<and> length (motor_commands (snd (execute_final s y ds))) \<le> 3"
    by (simp add: execute_final_proj collision_branch_final_def motor_commands_append
        motor_commands_escape steer_final_count)
  have g: "1 \<le> length (motor_commands (execute7 v y7 ds))
      \<and> length (motor_commands (execute7 v y7 ds)) \<le> 3"
    by (simp add: execute7_proj collision_branch7_def motor_commands_append
        motor_commands_escape steer7_count)
  have h: "prob_free y > 0.4 \<and> detstatus s = 1 \<longrightarrow>
        length (motor_commands (snd (execute_final s y ds))) = 1"
    by (simp add: execute_final_def collision_branch_final_def)
  have k: "\<not> prob_free7 y7 > 0.4 \<and>
        (prob_red7 y7 > 0.5 \<or> prob_yellow7 y7 > 0.5 \<or> prob_green7 y7 > 0.5
          \<or> prob_blue7 y7 > 0.5 \<or> prob_blocked7 y7 > 0.6) \<longrightarrow>
        length (motor_commands (execute7 v y7 ds)) = 1"
    by (auto simp: execute7_def collision_branch7_def)
  from f g h k show ?thesis by blast
qed

theorem motor_commands_per_frame_witness:
  "(prob_free \<lparr>prob_blocked = 0.1, prob_free = 0.8, prob_hit = 0.1\<rparr> > 0.4
      \<and> detstatus \<lparr>detstatus = 1, lookcount = 0\<rparr> = 1)
   \<and> length (motor_commands (snd (execute_final \<lparr>detstatus = 1, lookcount = 0\<rparr>
        \<lparr>prob_blocked = 0.1, prob_free = 0.8, prob_hit = 0.1\<rparr> []))) = 1
   \<and> (\<not> prob_free7 \<lparr>prob_blocked7 = 0.7, prob_blue7 = 0, prob_free7 = 0.1, prob_green7 = 0,
          prob_hit7 = 0.2, prob_red7 = 0, prob_yellow7 = 0\<rparr> > 0.4)
   \<and> length (motor_commands (execute7 0.4 \<lparr>prob_blocked7 = 0.7, prob_blue7 = 0, prob_free7 = 0.1,
          prob_green7 = 0, prob_hit7 = 0.2, prob_red7 = 0, prob_yellow7 = 0\<rparr> [])) = 1"
  using motor_commands_per_frame [of "\<lparr>detstatus = 1, lookcount = 0\<rparr>"
      "\<lparr>prob_blocked = 0.1, prob_free = 0.8, prob_hit = 0.1\<rparr>" "[]" "0.4"
      "\<lparr>prob_blocked7 = 0.7, prob_blue7 = 0, prob_free7 = 0.1, prob_green7 = 0,
          prob_hit7 = 0.2, prob_red7 = 0, prob_yellow7 = 0\<rparr>"]
  by simp

text \<open>
  C1 as stated fails: the escape maneuver issues three motor commands in one invocation, and
  the scanning branch falls through to the detection path, which issues a second command.
\<close>

theorem one_command_per_frame_counterexample:
  "motor_commands (snd (execute_final initial_state
      \<lparr>prob_blocked = 0.1, prob_free = 0.1, prob_hit = 0.8\<rparr> [])) = [Stop, Forward 0.4, Stop]
   \<and> motor_commands (snd (execute_final initial_state
      \<lparr>prob_blocked = 0.05, prob_free = 0.85, prob_hit = 0.1\<rparr> [])) = [Left 0.1, Forward 0.2]
   \<and> \<not> length (motor_commands (snd (execute_final initial_state
      \<lparr>prob_blocked = 0.1, prob_free = 0.1, prob_hit = 0.8\<rparr> []))) \<le> 1"
  by (simp add: execute_final_def collision_branch_final_def initial_state_def
      escape_maneuver_def steer_final_def matching_detections_final_def
      closest_detection_final_def)

lemma set_motors_args_steer_final:
  "set_motors_args (snd (steer_final s ds)) =
     (case closest_detection_final (matching_detections_final ds) of
        None \<Rightarrow> []
      | Some det \<Rightarrow> [(0.5 + 0.2 * fst (detection_center_final det),
                       0.5 - 0.2 * fst (detection_center_final det))])"
  by (simp add: steer_final_def Let_def split: option.splits)

lemma set_motors_args_steer7:
  "set_motors_args (steer7 v ds) =
     (case closest_detection (matching_detections7 ds) of
        None \<Rightarrow> []
      | Some det \<Rightarrow> [(v + 0.3 * fst (detection_center det),
                       v - 0.3 * fst (detection_center det))])"
  by (simp add: steer7_def Let_def split: option.splits)

lemma set_motors_args_execute_final:
  "set (set_motors_args (snd (execute_final s y ds)))
     \<subseteq> set (set_motors_args (snd (steer_final s ds)))"
  by (simp add: execute_final_proj collision_branch_final_def set_motors_args_append
      set_motors_args_escape set_motors_args_steer_final)

lemma set_motors_args_execute7:
  "set (set_motors_args (execute7 v y ds)) \<subseteq> set (set_motors_args (steer7 v ds))"
  by (simp add: execute7_proj collision_branch7_def set_motors_args_append
      set_motors_args_escape)

lemma detection_center_range:
  assumes "bbox_in_unit d"
  shows "- 0.5 \<le> fst (detection_center d) \<and> fst (detection_center d) \<le> 0.5"
  using assms by (auto simp: bbox_in_unit_def detection_center_def split: prod.splits)

lemma detection_center_final_range:
  assumes "bbox_in_unit d"
  shows "- 0.1 \<le> fst (detection_center_final d) \<and> fst (detection_center_final d) \<le> 0.9"
  using assms by (auto simp: bbox_in_unit_def detection_center_final_def split: prod.splits)

text \<open>
  In the 7-class notebook, when a target is selected, \<open>set_motors\<close> is called once with
  \<open>(base + gain * center_x, base - gain * center_x)\<close>, where \<open>center_x\<close> is the horizontal
  centre offset, the gain is \<open>0.3\<close> and the base is the speed slider: equal speeds at
  \<open>center_x = 0\<close>, and strictly monotone in \<open>center_x\<close>.
\<close>

lemma steering_linear7:
  assumes "closest_detection (matching_detections7 ds) = Some det"
  shows "set_motors_args (steer7 v ds) =
           [(v + 0.3 * fst (detection_center det), v - 0.3 * fst (detection_center det))]"
    and "fst (detection_center det) = 0 \<Longrightarrow> set_motors_args (steer7 v ds) = [(v, v)]"
    and "closest_detection (matching_detections7 ds') = Some det' \<Longrightarrow>
         fst (detection_center det) < fst (detection_center det') \<Longrightarrow>
           fst (hd (set_motors_args (steer7 v ds))) < fst (hd (set_motors_args (steer7 v ds')))
           \<and> snd (hd (set_motors_args (steer7 v ds')))
               < snd (hd (set_motors_args (steer7 v ds)))"
  using assms by (simp_all add: set_motors_args_steer7)

text \<open>
  In \<open>final-soccerbot.ipynb\<close> the command is linear in the centre offset with gain \<open>0.2\<close>,
  but around \<open>(0.58, 0.42)\<close> and not around the base speed \<open>0.5\<close>.
\<close>

lemma steering_final_offset:
  assumes "closest_detection_final (matching_detections_final ds) = Some det"
  shows "set_motors_args (snd (steer_final s ds)) =
           [(0.58 + 0.2 * fst (detection_center det), 0.42 - 0.2 * fst (detection_center det))]"
  using assms
  by (auto simp: set_motors_args_steer_final detection_center_final_def detection_center_def
      field_simps split: prod.splits)

text \<open>
  C6: the steering command should be \<open>(base + gain * center_x, base - gain * center_x)\<close>
  with \<open>center_x\<close> the target's horizontal centre offset, so that a target at the image
  centre gets two equal wheel speeds. In \<open>final-soccerbot.ipynb\<close> it does not: for a target
  with box \<open>(0.4, 0.4, 0.6, 0.6)\<close>, whose centre offset is 0, \<open>set_motors\<close> receives
  \<open>(0.58, 0.42)\<close> and not \<open>(0.5, 0.5)\<close>. The 7-class notebook, with the slider at \<open>0.5\<close>,
  passes \<open>(0.5, 0.5)\<close>.
\<close>

theorem steering_final_centred_target:
  "fst (detection_center ball_centre) = 0
   \<and> set_motors_args (snd (execute_final initial_state clear3 [ball_centre])) = [(0.58, 0.42)]
   \<and> set_motors_args (execute7 0.5 clear7 [ball_centre]) = [(0.5, 0.5)]"
  by (simp add: execute_final_proj execute7_proj collision_branch_final_def
      collision_branch7_def clear3_def clear7_def set_motors_args_steer_final
      set_motors_args_steer7 closest_detection_final_def closest_detection_def
      matching_detections_final_def matching_detections7_def ball_centre_def
      detection_center_final_def detection_center_def)

text \<open>
  C8 (as amended): for bounding boxes in \<open>[0, 1]\<close> and a base speed in \<open>[0, 1]\<close>, the wheel
  speeds passed to \<open>set_motors\<close> in the 7-class notebook lie in \<open>[-0.15, 1.15]\<close>, and in
  \<open>[-1, 1]\<close> when the base speed is at most \<open>0.85\<close>; in \<open>final-soccerbot.ipynb\<close>, whose
  base speed is the constant \<open>0.5\<close>, they lie in \<open>[-1, 1]\<close>.
\<close>

theorem wheel_speed_bounds:
  assumes "\<forall>d \<in> set ds. bbox_in_unit d" and "0 \<le> v" and "v \<le> 1"
  shows "(\<forall>(l, r) \<in> set (set_motors_args (execute7 v y7 ds)).
            - 0.15 \<le> l \<and> l \<le> 1.15 \<and> - 0.15 \<le> r \<and> r \<le> 1.15
            \<and> (v \<le> 0.85 \<longrightarrow> - 1 \<le> l \<and> l \<le> 1 \<and> - 1 \<le> r \<and> r \<le> 1))
       \<and> (\<forall>(l, r) \<in> set (set_motors_args (snd (execute_final s y ds))).
            - 1 \<le> l \<and> l \<le> 1 \<and> - 1 \<le> r \<and> r \<le> 1)"
proof -
  have seven: "- 0.15 \<le> l \<and> l \<le> 1.15 \<and> - 0.15 \<le> r \<and> r \<le> 1.15
            \<and> (v \<le> 0.85 \<longrightarrow> - 1 \<le> l \<and> l \<le> 1 \<and> - 1 \<le> r \<and> r \<le> 1)"
    if mem: "(l, r) \<in> set (set_motors_args (execute7 v y7 ds))" for l r
  proof -
    from mem set_motors_args_execute7
    have steered: "(l, r) \<in> set (set_motors_args (steer7 v ds))" by blast
    show ?thesis
    proof (cases "closest_detection (matching_detections7 ds)")
      case None
      with steered show ?thesis by (simp add: set_motors_args_steer7)
    next
      case (Some det)
      with steered have l: "l = v + 0.3 * fst (detection_center det)"
        and r: "r = v - 0.3 * fst (detection_center det)"
        by (simp_all add: set_motors_args_steer7)
      from Some assms(1) have "bbox_in_unit det" using closest_detection7_mem by blast
      from detection_center_range [OF this] l r assms(2,3) show ?thesis by auto
    qed
  qed
  have final: "- 1 \<le> l \<and> l \<le> 1 \<and> - 1 \<le> r \<and> r \<le> 1"
    if mem: "(l, r) \<in> set (set_motors_args (snd (execute_final s y ds)))" for l r
  proof -
    from mem set_motors_args_execute_final
    have steered: "(l, r) \<in> set (set_motors_args (snd (steer_final s ds)))" by blast
    show ?thesis
    proof (cases "closest_detection_final (matching_detections_final ds)")
      case None
      with steered show ?thesis by (simp add: set_motors_args_steer_final)
    next
      case (Some det)
      with steered have l: "l = 0.5 + 0.2 * fst (detection_center_final det)"
        and r: "r = 0.5 - 0.2 * fst (detection_center_final det)"
        by (simp_all add: set_motors_args_steer_final)
      from Some assms(1) have "bbox_in_unit det" using closest_detection_final_mem by blast
      from detection_center_final_range [OF this] l r show ?thesis by auto
    qed
  qed
  from seven final show ?thesis by blast
qed

theorem wheel_speed_bounds_witness:
  "bbox_in_unit ball_right \<and> (0::real) \<le> 0.5 \<and> (0.5::real) \<le> 1
   \<and> set_motors_args (execute7 0.5 clear7 [ball_right]) = [(0.635, 0.365)]
   \<and> list_all (\<lambda>(l, r). - 0.15 \<le> l \<and> l \<le> 1.15 \<and> - 0.15 \<le> r \<and> r \<le> 1.15
                       \<and> - 1 \<le> l \<and> l \<le> 1 \<and> - 1 \<le> r \<and> r \<le> 1)
        (set_motors_args (execute7 0.5 clear7 [ball_right]))"
proof -
  have h: "\<forall>d \<in> set [ball_right]. bbox_in_unit d"
    by (simp add: ball_right_def bbox_in_unit_def)
  have e: "set_motors_args (execute7 0.5 clear7 [ball_right]) = [(0.635, 0.365)]"
    by (simp add: execute7_proj collision_branch7_def clear7_def set_motors_args_steer7
        closest_detection_def matching_detections7_def ball_right_def detection_center_def)
  from h e wheel_speed_bounds [OF h, of "0.5" clear7 initial_state
      "\<lparr>prob_blocked = 0.1, prob_free = 0.1, prob_hit = 0.1\<rparr>"]
  show ?thesis by (simp add: list_all_iff)
qed

text \<open>
  C8 as stated fails: with the speed slider at 1 and a target at the right edge of the image
  the left wheel speed is \<open>1.135\<close>.
\<close>

theorem wheel_speed_range_counterexample:
  "bbox_in_unit ball_right
   \<and> set_motors_args (execute7 1 clear7 [ball_right]) = [(1.135, 0.865)]
   \<and> \<not> (1.135::real) \<le> 1"
  by (simp add: execute7_proj collision_branch7_def clear7_def set_motors_args_steer7
      closest_detection_def matching_detections7_def ball_right_def detection_center_def
      bbox_in_unit_def)

lemma steer_final_events:
  "Motor (Left (1 / 5)) \<notin> set (snd (steer_final s ds))"
  "Motor (Forward (2 / 5)) \<notin> set (snd (steer_final s ds))"
  by (simp_all add: steer_final_def Let_def split: option.splits)

lemma steer7_events:
  "Motor (Left (1 / 10)) \<notin> set (steer7 v ds)"
  "Motor (Left (1 / 5)) \<notin> set (steer7 v ds)"
  "Motor (Forward (2 / 5)) \<notin> set (steer7 v ds)"
  by (simp_all add: steer7_def Let_def split: option.splits)

text \<open>
  C3: the branches are tried in the order of the \<open>if\<close>/\<open>elif\<close> chain. When the free-space
  threshold is exceeded, the result of the invocation does not depend on the blocked and hit
  probabilities, its first effect is the free-space command, and neither the blocked turn
  (left at \<open>0.2\<close>) nor the escape pulse (forward at \<open>0.4\<close>) is issued; below the free-space
  threshold the blocked branch likewise wins over the hit branch. The same holds in the
  7-class notebook, where the order is free space, colour obstacle, blocked, hit.
\<close>

theorem priority_order:
  assumes "reachable_final s"
  shows "(prob_free y > 0.4 \<longrightarrow>
            execute_final s (y\<lparr>prob_blocked := b, prob_hit := h\<rparr>) ds = execute_final s y ds
          \<and> (hd (snd (execute_final s y ds)) = Motor (Left 0.1)
              \<or> hd (snd (execute_final s y ds)) = Motor (Forward 0.2))
          \<and> Motor (Left 0.2) \<notin> set (snd (execute_final s y ds))
          \<and> Motor (Forward 0.4) \<notin> set (snd (execute_final s y ds)))
       \<and> (\<not> prob_free y > 0.4 \<and> prob_blocked y > 0.5 \<longrightarrow>
            execute_final s (y\<lparr>prob_hit := h\<rparr>) ds = execute_final s y ds
          \<and> hd (snd (execute_final s y ds)) = Motor (Left 0.2)
          \<and> Motor (Forward 0.4) \<notin> set (snd (execute_final s y ds)))
       \<and> (prob_free7 y7 > 0.4 \<longrightarrow>
            execute7 v (y7\<lparr>prob_blocked7 := b, prob_blue7 := c1, prob_green7 := c2,
                           prob_hit7 := h, prob_red7 := c3, prob_yellow7 := c4\<rparr>) ds
              = execute7 v y7 ds
          \<and> hd (execute7 v y7 ds) = Motor (Forward 0.2)
          \<and> Motor (Left 0.1) \<notin> set (execute7 v y7 ds)
          \<and> Motor (Left 0.2) \<notin> set (execute7 v y7 ds)
          \<and> Motor (Forward 0.4) \<notin> set (execute7 v y7 ds))
       \<and> (\<not> prob_free7 y7 > 0.4
            \<and> (prob_red7 y7 > 0.5 \<or> prob_yellow7 y7 > 0.5 \<or> prob_green7 y7 > 0.5
                \<or> prob_blue7 y7 > 0.5) \<longrightarrow>
            execute7 v (y7\<lparr>prob_blocked7 := b, prob_hit7 := h\<rparr>) ds = execute7 v y7 ds
          \<and> execute7 v y7 ds = [Motor (Left 0.1)])
       \<and> (\<not> prob_free7 y7 > 0.4
            \<and> \<not> (prob_red7 y7 > 0.5 \<or> prob_yellow7 y7 > 0.5 \<or> prob_green7 y7 > 0.5
                \<or> prob_blue7 y7 > 0.5)
            \<and> prob_blocked7 y7 > 0.6 \<longrightarrow>
            execute7 v (y7\<lparr>prob_hit7 := h\<rparr>) ds = execute7 v y7 ds
          \<and> execute7 v y7 ds = [Motor (Left 0.2)])"
proof -
  from assms have tracked: "detstatus s = 0 \<or> detstatus s = 1"
    by (rule reachable_final_detstatus)
  have free: "prob_free y > 0.4 \<longrightarrow>
            execute_final s (y\<lparr>prob_blocked := b, prob_hit := h\<rparr>) ds = execute_final s y ds
          \<and> (hd (snd (execute_final s y ds)) = Motor (Left 0.1)
              \<or> hd (snd (execute_final s y ds)) = Motor (Forward 0.2))
          \<and> Motor (Left 0.2) \<notin> set (snd (execute_final s y ds))
          \<and> Motor (Forward 0.4) \<notin> set (snd (execute_final s y ds))"
    using tracked
    by (auto simp: execute_final_proj collision_branch_final_def steer_final_events)
  have blocked: "\<not> prob_free y > 0.4 \<and> prob_blocked y > 0.5 \<longrightarrow>
            execute_final s (y\<lparr>prob_hit := h\<rparr>) ds = execute_final s y ds
          \<and> hd (snd (execute_final s y ds)) = Motor (Left 0.2)
          \<and> Motor (Forward 0.4) \<notin> set (snd (execute_final s y ds))"
    by (auto simp: execute_final_proj collision_branch_final_def steer_final_events)
  have free7: "prob_free7 y7 > 0.4 \<longrightarrow>
            execute7 v (y7\<lparr>prob_blocked7 := b, prob_blue7 := c1, prob_green7 := c2,
                           prob_hit7 := h, prob_red7 := c3, prob_yellow7 := c4\<rparr>) ds
              = execute7 v y7 ds
          \<and> hd (execute7 v y7 ds) = Motor (Forward 0.2)
          \<and> Motor (Left 0.1) \<notin> set (execute7 v y7 ds)
          \<and> Motor (Left 0.2) \<notin> set (execute7 v y7 ds)
          \<and> Motor (Forward 0.4) \<notin> set (execute7 v y7 ds)"
    by (simp add: execute7_proj collision_branch7_def steer7_events)
  have colour7: "\<not> prob_free7 y7 > 0.4
            \<and> (prob_red7 y7 > 0.5 \<or> prob_yellow7 y7 > 0.5 \<or> prob_green7 y7 > 0.5
                \<or> prob_blue7 y7 > 0.5) \<longrightarrow>
            execute7 v (y7\<lparr>prob_blocked7 := b, prob_hit7 := h\<rparr>) ds = execute7 v y7 ds
          \<and> execute7 v y7 ds = [Motor (Left 0.1)]"
    by (auto simp: execute7_proj collision_branch7_def)
  have blocked7: "\<not> prob_free7 y7 > 0.4
            \<and> \<not> (prob_red7 y7 > 0.5 \<or> prob_yellow7 y7 > 0.5 \<or> prob_green7 y7 > 0.5
                \<or> prob_blue7 y7 > 0.5)
            \<and> prob_blocked7 y7 > 0.6 \<longrightarrow>
            execute7 v (y7\<lparr>prob_hit7 := h\<rparr>) ds = execute7 v y7 ds
          \<and> execute7 v y7 ds = [Motor (Left 0.2)]"
    by (auto simp: execute7_proj collision_branch7_def)
  from free blocked free7 colour7 blocked7 show ?thesis by blast
qed

theorem priority_order_witness:
  "reachable_final initial_state
   \<and> prob_free \<lparr>prob_blocked = 0.55, prob_free = 0.45, prob_hit = 0\<rparr> > 0.4
   \<and> prob_blocked \<lparr>prob_blocked = 0.55, prob_free = 0.45, prob_hit = 0\<rparr> > 0.5
   \<and> execute_final initial_state \<lparr>prob_blocked = 0, prob_free = 0.45, prob_hit = 0.55\<rparr> []
       = execute_final initial_state \<lparr>prob_blocked = 0.55, prob_free = 0.45, prob_hit = 0\<rparr> []
   \<and> Motor (Left 0.2) \<notin> set (snd (execute_final initial_state
         \<lparr>prob_blocked = 0.55, prob_free = 0.45, prob_hit = 0\<rparr> []))
   \<and> prob_blocked \<lparr>prob_blocked = 0.6, prob_free = 0.1, prob_hit = 0.3\<rparr> > 0.5
   \<and> hd (snd (execute_final initial_state
         \<lparr>prob_blocked = 0.6, prob_free = 0.1, prob_hit = 0.3\<rparr> [])) = Motor (Left 0.2)
   \<and> prob_free7 \<lparr>prob_blocked7 = 0, prob_blue7 = 0, prob_free7 = 0.45, prob_green7 = 0,
          prob_hit7 = 0.55, prob_red7 = 0, prob_yellow7 = 0\<rparr> > 0.4
   \<and> hd (execute7 0.4 \<lparr>prob_blocked7 = 0, prob_blue7 = 0, prob_free7 = 0.45, prob_green7 = 0,
          prob_hit7 = 0.55, prob_red7 = 0, prob_yellow7 = 0\<rparr> []) = Motor (Forward 0.2)
   \<and> execute7 0.4 \<lparr>prob_blocked7 = 0.35, prob_blue7 = 0, prob_free7 = 0.1, prob_green7 = 0,
          prob_hit7 = 0, prob_red7 = 0.55, prob_yellow7 = 0\<rparr> [] = [Motor (Left 0.1)]
   \<and> execute7 0.4 \<lparr>prob_blocked7 = 0.7, prob_blue7 = 0, prob_free7 = 0.1, prob_green7 = 0,
          prob_hit7 = 0.2, prob_red7 = 0, prob_yellow7 = 0\<rparr> [] = [Motor (Left 0.2)]"
  using reachable_final.init
    priority_order [OF reachable_final.init,
      where y = "\<lparr>prob_blocked = 0.55, prob_free = 0.45, prob_hit = 0\<rparr>"
      and b = 0 and h = "0.55" and ds = "[]" and v = "0.4"
      and ?y7.0 = "\<lparr>prob_blocked7 = 0, prob_blue7 = 0, prob_free7 = 0.45, prob_green7 = 0,
          prob_hit7 = 0.55, prob_red7 = 0, prob_yellow7 = 0\<rparr>"]
    priority_order [OF reachable_final.init,
      where y = "\<lparr>prob_blocked = 0.6, prob_free = 0.1, prob_hit = 0.3\<rparr>"
      and ds = "[]" and v = "0.4"
      and ?y7.0 = "\<lparr>prob_blocked7 = 0.35, prob_blue7 = 0, prob_free7 = 0.1, prob_green7 = 0,
          prob_hit7 = 0, prob_red7 = 0.55, prob_yellow7 = 0\<rparr>"]
    priority_order [OF reachable_final.init,
      where ds = "[]" and v = "0.4"
      and ?y7.0 = "\<lparr>prob_blocked7 = 0.7, prob_blue7 = 0, prob_free7 = 0.1, prob_green7 = 0,
          prob_hit7 = 0.2, prob_red7 = 0, prob_yellow7 = 0\<rparr>"]
  by simp

text \<open>
  C10: in the 7-class notebook, when the free-space probability is at most \<open>0.4\<close> and one of
  the red, yellow, green or blue probabilities exceeds \<open>0.5\<close>, the whole trace of the
  invocation is one left turn at speed \<open>0.1\<close>: the detector is not called, and the values of
  the blocked and hit probabilities make no difference, the branch being tested before theirs.
\<close>

theorem colour_obstacle_branch:
  assumes "prob_free7 y \<le> 0.4"
    and "prob_red7 y > 0.5 \<or> prob_yellow7 y > 0.5 \<or> prob_green7 y > 0.5 \<or> prob_blue7 y > 0.5"
  shows "execute7 v y ds = [Motor (Left 0.1)]
     \<and> motor_commands (execute7 v y ds) = [Left 0.1]
     \<and> Detect \<notin> set (execute7 v y ds)
     \<and> execute7 v (y\<lparr>prob_blocked7 := b, prob_hit7 := h\<rparr>) ds = execute7 v y ds"
  using assms by (auto simp: execute7_proj collision_branch7_def)

theorem colour_obstacle_branch_witness:
  "prob_free7 \<lparr>prob_blocked7 = 0.3, prob_blue7 = 0, prob_free7 = 0.1, prob_green7 = 0,
          prob_hit7 = 0, prob_red7 = 0.6, prob_yellow7 = 0\<rparr> \<le> 0.4
   \<and> prob_red7 \<lparr>prob_blocked7 = 0.3, prob_blue7 = 0, prob_free7 = 0.1, prob_green7 = 0,
          prob_hit7 = 0, prob_red7 = 0.6, prob_yellow7 = 0\<rparr> > 0.5
   \<and> execute7 0.4 \<lparr>prob_blocked7 = 0.3, prob_blue7 = 0, prob_free7 = 0.1, prob_green7 = 0,
          prob_hit7 = 0, prob_red7 = 0.6, prob_yellow7 = 0\<rparr> [] = [Motor (Left 0.1)]"
  using colour_obstacle_branch [of "\<lparr>prob_blocked7 = 0.3, prob_blue7 = 0, prob_free7 = 0.1,
          prob_green7 = 0, prob_hit7 = 0, prob_red7 = 0.6, prob_yellow7 = 0\<rparr>" "0.4" "[]"]
  by simp

lemma delivered_detached_append:
  "Observe \<notin> set (effects_of ts) \<Longrightarrow> delivered False (ts @ us) = delivered False us"
proof (induction ts)
  case Nil
  show ?case by simp
next
  case (Cons t ts)
  show ?case
  proof (cases t)
    case FrameArrives
    with Cons show ?thesis by simp
  next
    case (Effect e)
    with Cons show ?thesis by (cases e) simp_all
  qed
qed

lemma delivered_detached:
  "Observe \<notin> set (effects_of ts) \<Longrightarrow> delivered False ts = 0"
  using delivered_detached_append [of ts "[]"] by simp

lemma delivered_while_detached:
  assumes "Observe \<notin> set (effects_of sched)"
  shows "delivered attached (Effect Unobserve # sched) = 0"
    and "delivered attached (Effect Unobserve # sched @ [Effect Observe, FrameArrives]) = 1"
  using assms by (simp_all add: delivered_detached delivered_detached_append)

text \<open>
  C7 (as amended): whenever the hit branch is reached, that is the hit probability exceeds
  \<open>0.5\<close> and no earlier branch matches, the policy detaches from the frame source before
  acting, then performs the fixed escape maneuver (pause 1 s, stop, pause 0.5 s, forward at
  0.4, pause 0.5 s, stop, pause 2 s) and reattaches only after the maneuver completes; the
  state is unchanged and the detector is not called. Frame delivery is suspended for the
  maneuver's entire duration: however the arrival of frames is interleaved with the effects of
  the maneuver, and whether or not the callback was attached before, no frame is delivered, so
  \<open>execute\<close> is not entered again while the maneuver runs; a frame that arrives after the
  reattachment is delivered.
\<close>

theorem escape_branch:
  "(prob_free y \<le> 0.4 \<and> prob_blocked y \<le> 0.5 \<and> prob_hit y > 0.5 \<longrightarrow>
      execute_final s y ds =
        (s, [Unobserve, Sleep 1, Motor Stop, Sleep 0.5, Motor (Forward 0.4), Sleep 0.5,
             Motor Stop, Sleep 2, Observe])
      \<and> (effects_of sched = butlast (tl (snd (execute_final s y ds))) \<longrightarrow>
          delivered attached (Effect Unobserve # sched) = 0
          \<and> delivered attached (Effect Unobserve # sched @ [Effect Observe, FrameArrives]) = 1))
   \<and> (prob_free7 y7 \<le> 0.4 \<and> prob_red7 y7 \<le> 0.5 \<and> prob_yellow7 y7 \<le> 0.5
        \<and> prob_green7 y7 \<le> 0.5 \<and> prob_blue7 y7 \<le> 0.5 \<and> prob_blocked7 y7 \<le> 0.6
        \<and> prob_hit7 y7 > 0.5 \<longrightarrow>
      execute7 v y7 ds =
        [Unobserve, Sleep 1, Motor Stop, Sleep 0.5, Motor (Forward 0.4), Sleep 0.5,
         Motor Stop, Sleep 2, Observe]
      \<and> (effects_of sched = butlast (tl (execute7 v y7 ds)) \<longrightarrow>
          delivered attached (Effect Unobserve # sched) = 0
          \<and> delivered attached (Effect Unobserve # sched @ [Effect Observe, FrameArrives]) = 1))"
proof -
  have trace_final: "execute_final s y ds =
        (s, [Unobserve, Sleep 1, Motor Stop, Sleep 0.5, Motor (Forward 0.4), Sleep 0.5,
             Motor Stop, Sleep 2, Observe])"
    if "prob_free y \<le> 0.4 \<and> prob_blocked y \<le> 0.5 \<and> prob_hit y > 0.5"
    using that
    by (auto simp: execute_final_proj collision_branch_final_def escape_maneuver_def)
  have trace7: "execute7 v y7 ds =
        [Unobserve, Sleep 1, Motor Stop, Sleep 0.5, Motor (Forward 0.4), Sleep 0.5,
         Motor Stop, Sleep 2, Observe]"
    if "prob_free7 y7 \<le> 0.4 \<and> prob_red7 y7 \<le> 0.5 \<and> prob_yellow7 y7 \<le> 0.5
        \<and> prob_green7 y7 \<le> 0.5 \<and> prob_blue7 y7 \<le> 0.5 \<and> prob_blocked7 y7 \<le> 0.6
        \<and> prob_hit7 y7 > 0.5"
    using that
    by (auto simp: execute7_proj collision_branch7_def escape_maneuver_def)
  have quiet: "delivered attached (Effect Unobserve # sched) = 0
          \<and> delivered attached (Effect Unobserve # sched @ [Effect Observe, FrameArrives]) = 1"
    if "effects_of sched = butlast (tl [Unobserve, Sleep 1, Motor Stop, Sleep 0.5,
          Motor (Forward 0.4), Sleep 0.5, Motor Stop, Sleep 2, Observe])"
  proof -
    from that have "Observe \<notin> set (effects_of sched)" by simp
    then show ?thesis using delivered_while_detached by blast
  qed
  from trace_final trace7 quiet show ?thesis by (metis snd_conv)
qed

theorem escape_branch_witness:
  "execute_final initial_state \<lparr>prob_blocked = 0.1, prob_free = 0.1, prob_hit = 0.8\<rparr> [] =
        (initial_state, [Unobserve, Sleep 1, Motor Stop, Sleep 0.5, Motor (Forward 0.4), Sleep 0.5,
             Motor Stop, Sleep 2, Observe])
   \<and> effects_of busy_schedule = butlast (tl (snd (execute_final initial_state
         \<lparr>prob_blocked = 0.1, prob_free = 0.1, prob_hit = 0.8\<rparr> [])))
   \<and> delivered True (Effect Unobserve # busy_schedule) = 0
   \<and> delivered True (Effect Unobserve # busy_schedule @ [Effect Observe, FrameArrives]) = 1
   \<and> execute7 0.4 \<lparr>prob_blocked7 = 0.1, prob_blue7 = 0, prob_free7 = 0.1, prob_green7 = 0,
          prob_hit7 = 0.8, prob_red7 = 0, prob_yellow7 = 0\<rparr> [] =
        [Unobserve, Sleep 1, Motor Stop, Sleep 0.5, Motor (Forward 0.4), Sleep 0.5,
         Motor Stop, Sleep 2, Observe]
   \<and> effects_of busy_schedule = butlast (tl (execute7 0.4 \<lparr>prob_blocked7 = 0.1, prob_blue7 = 0,
          prob_free7 = 0.1, prob_green7 = 0, prob_hit7 = 0.8, prob_red7 = 0,
          prob_yellow7 = 0\<rparr> []))"
proof -
  have sched: "effects_of busy_schedule =
      [Sleep 1, Motor Stop, Sleep 0.5, Motor (Forward 0.4), Sleep 0.5, Motor Stop, Sleep 2]"
    by (simp add: busy_schedule_def)
  from sched escape_branch [where y = "\<lparr>prob_blocked = 0.1, prob_free = 0.1, prob_hit = 0.8\<rparr>"
      and ?y7.0 = "\<lparr>prob_blocked7 = 0.1, prob_blue7 = 0, prob_free7 = 0.1, prob_green7 = 0,
          prob_hit7 = 0.8, prob_red7 = 0, prob_yellow7 = 0\<rparr>"
      and s = initial_state and ds = "[]" and v = "0.4" and sched = busy_schedule
      and attached = True]
  show ?thesis by simp
qed

text \<open>
  C7 as stated fails: with a hit probability of \<open>0.55\<close> and a free-space probability of
  \<open>0.45\<close> the free-space branch runs; the first effect is a motor command, the camera is
  never detached, and a frame arriving during the invocation is delivered.
\<close>

theorem escape_on_hit_counterexample:
  "prob_hit \<lparr>prob_blocked = 0, prob_free = 0.45, prob_hit = 0.55\<rparr> > 0.5
   \<and> snd (execute_final initial_state \<lparr>prob_blocked = 0, prob_free = 0.45, prob_hit = 0.55\<rparr> [])
       = [Motor (Left 0.1), Detect, Motor (Forward 0.2)]
   \<and> Unobserve \<notin> set (snd (execute_final initial_state
        \<lparr>prob_blocked = 0, prob_free = 0.45, prob_hit = 0.55\<rparr> []))
   \<and> delivered True [Effect (Motor (Left 0.1)), FrameArrives, Effect Detect,
         Effect (Motor (Forward 0.2))] = 1"
  by (simp add: execute_final_def collision_branch_final_def initial_state_def
      steer_final_def matching_detections_final_def closest_detection_final_def)

text \<open>
  C5 (as amended): with a free-space probability above \<open>0.4\<close> and \<open>detstatus = 0\<close>, below the
  scan limit of 10 the invocation first issues a left turn at \<open>0.1\<close> and leaves the counter
  incremented by one; at the limit it first issues forward at \<open>0.2\<close> and leaves the counter at
  0. In both cases the invocation does not return there: it goes on to call the detector and
  to issue the commands of the detection path.
\<close>

theorem scan_branch:
  assumes "prob_free y > 0.4" and "detstatus s = 0"
  shows "(lookcount s < 10 \<longrightarrow>
            execute_final s y ds =
              (fst (steer_final (s\<lparr>lookcount := lookcount s + 1\<rparr>) ds),
               Motor (Left 0.1) # Detect # snd (steer_final (s\<lparr>lookcount := lookcount s + 1\<rparr>) ds))
          \<and> hd (motor_commands (snd (execute_final s y ds))) = Left 0.1
          \<and> lookcount (fst (execute_final s y ds)) = lookcount s + 1)
       \<and> (\<not> lookcount s < 10 \<longrightarrow>
            execute_final s y ds =
              (fst (steer_final (s\<lparr>lookcount := 0\<rparr>) ds),
               Motor (Forward 0.2) # Detect # snd (steer_final (s\<lparr>lookcount := 0\<rparr>) ds))
          \<and> hd (motor_commands (snd (execute_final s y ds))) = Forward 0.2
          \<and> lookcount (fst (execute_final s y ds)) = 0)"
  using assms
  by (simp add: execute_final_proj collision_branch_final_def steer_final_lookcount)

theorem scan_branch_witness:
  "prob_free \<lparr>prob_blocked = 0.05, prob_free = 0.85, prob_hit = 0.1\<rparr> > 0.4
   \<and> detstatus \<lparr>detstatus = 0, lookcount = 3\<rparr> = 0
   \<and> lookcount \<lparr>detstatus = 0, lookcount = 3\<rparr> < 10
   \<and> hd (motor_commands (snd (execute_final \<lparr>detstatus = 0, lookcount = 3\<rparr>
        \<lparr>prob_blocked = 0.05, prob_free = 0.85, prob_hit = 0.1\<rparr> []))) = Left 0.1
   \<and> lookcount (fst (execute_final \<lparr>detstatus = 0, lookcount = 3\<rparr>
        \<lparr>prob_blocked = 0.05, prob_free = 0.85, prob_hit = 0.1\<rparr> [])) = 4
   \<and> \<not> lookcount \<lparr>detstatus = 0, lookcount = 10\<rparr> < 10
   \<and> hd (motor_commands (snd (execute_final \<lparr>detstatus = 0, lookcount = 10\<rparr>
        \<lparr>prob_blocked = 0.05, prob_free = 0.85, prob_hit = 0.1\<rparr> []))) = Forward 0.2
   \<and> lookcount (fst (execute_final \<lparr>detstatus = 0, lookcount = 10\<rparr>
        \<lparr>prob_blocked = 0.05, prob_free = 0.85, prob_hit = 0.1\<rparr> [])) = 0"
  using scan_branch [of "\<lparr>prob_blocked = 0.05, prob_free = 0.85, prob_hit = 0.1\<rparr>"
        "\<lparr>detstatus = 0, lookcount = 3\<rparr>" "[]"]
      scan_branch [of "\<lparr>prob_blocked = 0.05, prob_free = 0.85, prob_hit = 0.1\<rparr>"
        "\<lparr>detstatus = 0, lookcount = 10\<rparr>" "[]"]
  by (simp add: steer_final_lookcount)

text \<open>
  C5 as stated fails: with counter 3 and no detection the scanning turn is followed in the same
  invocation by a forward command, and with counter 10 two forward commands are issued.
\<close>

theorem scan_turn_only_counterexample:
  "motor_commands (snd (execute_final \<lparr>detstatus = 0, lookcount = 3\<rparr>
        \<lparr>prob_blocked = 0.05, prob_free = 0.85, prob_hit = 0.1\<rparr> [])) = [Left 0.1, Forward 0.2]
   \<and> motor_commands (snd (execute_final \<lparr>detstatus = 0, lookcount = 10\<rparr>
        \<lparr>prob_blocked = 0.05, prob_free = 0.85, prob_hit = 0.1\<rparr> [])) = [Forward 0.2, Forward 0.2]"
  by (simp add: execute_final_def collision_branch_final_def
      steer_final_def matching_detections_final_def closest_detection_final_def)

end
